theory Spec2Isabelle
  imports Main "HOL-Library.Sublist"
begin

section \<open>Constants of main.go\<close>

definition DatabaseMatch :: string where
  "DatabaseMatch = ''database''"

definition ValidNameMaxLength :: nat where
  "ValidNameMaxLength = 255"

text \<open>Durations are nanoseconds, as in Go's \<open>time.Duration\<close>.\<close>

definition Second :: nat where
  "Second = 1000000000"

definition WaitForRestartTimeout :: nat where
  "WaitForRestartTimeout = 300 * Second"

definition ConfigRestartInterval :: nat where
  "ConfigRestartInterval = 2"

definition ConfigNameSuffixLength :: nat where
  "ConfigNameSuffixLength = 5"

definition PodRunning :: string where
  "PodRunning = ''Running''"

definition PodSucceeded :: string where
  "PodSucceeded = ''Succeeded''"

definition PodFailed :: string where
  "PodFailed = ''Failed''"

definition newline :: string where
  "newline = [CHR 0x0A]"

section \<open>Data model\<close>

text \<open>A Go \<open>error\<close> value is its message; \<open>nil\<close> is \<open>None\<close>.\<close>

type_synonym error = string

record OwnerReference =
  refKind :: string
  refName :: string

record Pod =
  podName :: string
  podNamespace :: string
  podOwnerReferences :: "OwnerReference list"
  podLabels :: "(string \<times> string) list"
  podSpec :: string
  podPhase :: string

text \<open>
  A Deployment, DaemonSet or StatefulSet, as far as the program reads it: its identity and
  the annotations of its pod template (\<open>None\<close> is Go's nil map).
\<close>

record Workload =
  objName :: string
  objNamespace :: string
  templateAnnotations :: "(string \<rightharpoonup> string) option"

record ReplicaSet =
  rsName :: string
  rsNamespace :: string
  rsOwnerReferences :: "OwnerReference list"

section \<open>The cluster API client and the effects of the program\<close>

datatype verb = Get | Update | Create | Delete

datatype resource = Deployments | DaemonSets | StatefulSets | ReplicaSets | Pods

text \<open>A request to the API server: verb, resource, namespace, name.\<close>

datatype call = Call verb resource string string

fun callVerb :: "call \<Rightarrow> verb" where
  "callVerb (Call v r ns n) = v"

fun callResource :: "call \<Rightarrow> resource" where
  "callResource (Call v r ns n) = r"

text \<open>
  Everything the program does to the outside: the requests it has sent, the lines it has
  printed, the time that has passed (nanoseconds) and the number of random strings drawn.
\<close>

record world =
  calls :: "call list"
  stdout :: "string list"
  clock :: nat
  seed :: nat

text \<open>
  The client set. What a request returns is up to the cluster: a function of the world at
  the time of the request. \<open>latency\<close> is the time a request takes, \<open>randString\<close> is
  \<open>rand.String\<close> (by the draw's index and the length asked for), \<open>formatRFC3339\<close> is
  \<open>Format(time.RFC3339)\<close> of a clock value.
\<close>

record kubeClient =
  apiGetDeployment :: "world \<Rightarrow> string \<Rightarrow> string \<Rightarrow> error + Workload"
  apiUpdateDeployment :: "world \<Rightarrow> string \<Rightarrow> Workload \<Rightarrow> error option"
  apiGetDaemonSet :: "world \<Rightarrow> string \<Rightarrow> string \<Rightarrow> error + Workload"
  apiUpdateDaemonSet :: "world \<Rightarrow> string \<Rightarrow> Workload \<Rightarrow> error option"
  apiGetStatefulSet :: "world \<Rightarrow> string \<Rightarrow> string \<Rightarrow> error + Workload"
  apiUpdateStatefulSet :: "world \<Rightarrow> string \<Rightarrow> Workload \<Rightarrow> error option"
  apiGetReplicaSet :: "world \<Rightarrow> string \<Rightarrow> string \<Rightarrow> error + ReplicaSet"
  apiCreatePod :: "world \<Rightarrow> string \<Rightarrow> Pod \<Rightarrow> error + Pod"
  apiGetPod :: "world \<Rightarrow> string \<Rightarrow> string \<Rightarrow> error + Pod"
  apiDeletePod :: "world \<Rightarrow> string \<Rightarrow> string \<Rightarrow> error option"
  latency :: "world \<Rightarrow> call \<Rightarrow> nat"
  randString :: "nat \<Rightarrow> nat \<Rightarrow> string"
  formatRFC3339 :: "nat \<Rightarrow> string"

definition invoke :: "kubeClient \<Rightarrow> call \<Rightarrow> world \<Rightarrow> world" where
  "invoke c k w = w\<lparr>calls := calls w @ [k], clock := clock w + latency c w k\<rparr>"

definition printf :: "string \<Rightarrow> world \<Rightarrow> world" where
  "printf s w = w\<lparr>stdout := stdout w @ [s]\<rparr>"

definition sleep :: "nat \<Rightarrow> world \<Rightarrow> world" where
  "sleep d w = w\<lparr>clock := clock w + d\<rparr>"

definition isMutating :: "call \<Rightarrow> bool" where
  "isMutating k = (callVerb k \<noteq> Get)"

text \<open>The mutating requests sent so far, in order.\<close>

definition mutations :: "world \<Rightarrow> call list" where
  "mutations w = filter isMutating (calls w)"

section \<open>strings.Contains\<close>

fun stringsContains :: "string \<Rightarrow> string \<Rightarrow> bool" where
  "stringsContains [] substr = (substr = [])"
| "stringsContains (x # xs) substr =
     (prefix substr (x # xs) \<or> stringsContains xs substr)"

section \<open>getResourceType\<close>

definition getResourceType :: "string \<Rightarrow> string" where
  "getResourceType name =
     (if name = ''ReplicaSet'' then ''ReplicaSet''
      else if name = ''Deployment'' then ''Deployment''
      else if name = ''StatefulSet'' then ''StatefulSet''
      else if name = ''DaemonSet'' then ''DaemonSet''
      else if name = '''' then ''Pod''
      else ''unsupported'')"

section \<open>restartDeployment, restartDaemonSet, restartStatefulSet\<close>

definition restartedAt :: string where
  "restartedAt = ''kubectl.kubernetes.io/restartedAt''"

text \<open>
  The two assignments to the template's annotations: a nil map is made first, then the
  timestamp is stored under the restartedAt key.
\<close>

definition touchTemplate :: "string \<Rightarrow> Workload \<Rightarrow> Workload" where
  "touchTemplate stamp obj =
     (let annotations = (case templateAnnotations obj of
                           None \<Rightarrow> Map.empty
                         | Some m \<Rightarrow> m)
      in obj\<lparr>templateAnnotations := Some (annotations(restartedAt \<mapsto> stamp))\<rparr>)"

definition restartDeployment ::
  "kubeClient \<Rightarrow> string \<Rightarrow> string \<Rightarrow> world \<Rightarrow> error option \<times> world" where
  "restartDeployment c name namespace w =
     (let w1 = invoke c (Call Get Deployments namespace name) w in
      case apiGetDeployment c w namespace name of
        Inl err \<Rightarrow> (Some err, w1)
      | Inr deploy \<Rightarrow>
          (let deploy' = touchTemplate (formatRFC3339 c (clock w1)) deploy
           in (apiUpdateDeployment c w1 namespace deploy',
               invoke c (Call Update Deployments namespace (objName deploy')) w1)))"

definition restartDaemonSet ::
  "kubeClient \<Rightarrow> string \<Rightarrow> string \<Rightarrow> world \<Rightarrow> error option \<times> world" where
  "restartDaemonSet c name namespace w =
     (let w1 = invoke c (Call Get DaemonSets namespace name) w in
      case apiGetDaemonSet c w namespace name of
        Inl err \<Rightarrow> (Some err, w1)
      | Inr ds \<Rightarrow>
          (let ds' = touchTemplate (formatRFC3339 c (clock w1)) ds
           in (apiUpdateDaemonSet c w1 namespace ds',
               invoke c (Call Update DaemonSets namespace (objName ds')) w1)))"

definition restartStatefulSet ::
  "kubeClient \<Rightarrow> string \<Rightarrow> string \<Rightarrow> world \<Rightarrow> error option \<times> world" where
  "restartStatefulSet c name namespace w =
     (let w1 = invoke c (Call Get StatefulSets namespace name) w in
      case apiGetStatefulSet c w namespace name of
        Inl err \<Rightarrow> (Some err, w1)
      | Inr sts \<Rightarrow>
          (let sts' = touchTemplate (formatRFC3339 c (clock w1)) sts
           in (apiUpdateStatefulSet c w1 namespace sts',
               invoke c (Call Update StatefulSets namespace (objName sts')) w1)))"

section \<open>restartReplicaSet\<close>

text \<open>The loop over the ReplicaSet's owner references: it returns at the first Deployment.\<close>

fun replicaSetOwners ::
  "kubeClient \<Rightarrow> string \<Rightarrow> OwnerReference list \<Rightarrow> world \<Rightarrow> error option \<times> world" where
  "replicaSetOwners c namespace [] w = (None, w)"
| "replicaSetOwners c namespace (ownerRef # rest) w =
     (if getResourceType (refKind ownerRef) = ''Deployment''
      then restartDeployment c (refName ownerRef) namespace w
      else replicaSetOwners c namespace rest w)"

definition restartReplicaSet ::
  "kubeClient \<Rightarrow> string \<Rightarrow> string \<Rightarrow> world \<Rightarrow> error option \<times> world" where
  "restartReplicaSet c name namespace w =
     (let w1 = invoke c (Call Get ReplicaSets namespace name) w in
      case apiGetReplicaSet c w namespace name of
        Inl err \<Rightarrow> (Some err, w1)
      | Inr rs \<Rightarrow> replicaSetOwners c namespace (rsOwnerReferences rs) w1)"

section \<open>restartPod\<close>

definition newSuffixPodName :: "string \<Rightarrow> string \<Rightarrow> string" where
  "newSuffixPodName name sfx = name @ ''-'' @ sfx"

text \<open>The value \<open>restartPod\<close> gives its variable \<open>newPodName\<close>.\<close>

definition newPodName :: "string \<Rightarrow> string \<Rightarrow> string" where
  "newPodName name sfx =
     (if length name > ValidNameMaxLength
      then newSuffixPodName (take (length name - ConfigNameSuffixLength) name) sfx
      else newSuffixPodName name sfx)"

definition deletePod ::
  "kubeClient \<Rightarrow> string \<Rightarrow> string \<Rightarrow> world \<Rightarrow> error option \<times> world" where
  "deletePod c name namespace w =
     (apiDeletePod c w namespace name, invoke c (Call Delete Pods namespace name) w)"

definition isPodRunning ::
  "kubeClient \<Rightarrow> string \<Rightarrow> string \<Rightarrow> world \<Rightarrow> bool \<times> world" where
  "isPodRunning c name namespace w =
     (let w1 = invoke c (Call Get Pods namespace name) w in
      case apiGetPod c w namespace name of
        Inl err \<Rightarrow> (False, w1)
      | Inr pod \<Rightarrow>
          (if podPhase pod = PodRunning then (True, w1)
           else if podPhase pod = PodSucceeded \<or> podPhase pod = PodFailed then (False, w1)
           else (False, w1)))"

text \<open>
  The polling loop of \<open>restartPod\<close>; \<open>start\<close> is the clock value taken before the loop.
  Each round that does not leave the loop sleeps \<open>ConfigRestartInterval\<close> seconds.
\<close>

function waitForRestart ::
  "kubeClient \<Rightarrow> Pod \<Rightarrow> Pod \<Rightarrow> nat \<Rightarrow> world \<Rightarrow> error option \<times> world" where
  "waitForRestart c pod inst start w =
     (if clock w - start > WaitForRestartTimeout
      then (None, printf (''timed out waiting for Pod to restart: '' @ podName inst
                          @ '' in namespace: '' @ podNamespace inst @ newline) w)
      else (case isPodRunning c (podName inst) (podNamespace inst) w of
              (True, w1) \<Rightarrow>
                deletePod c (podName pod) (podNamespace pod)
                  (printf (''replacing pod: '' @ podName pod @ '' with '' @ podName inst
                           @ '' in namespace '' @ podNamespace inst @ newline) w1)
            | (False, w1) \<Rightarrow>
                waitForRestart c pod inst start (sleep (ConfigRestartInterval * Second) w1)))"
  by pat_completeness auto
termination
  by (relation "measure (\<lambda>(c, pod, inst, start, w). Suc (start + WaitForRestartTimeout) - clock w)")
     (auto simp: isPodRunning_def invoke_def sleep_def Let_def ConfigRestartInterval_def
        Second_def split: sum.splits if_splits)

declare waitForRestart.simps [simp del]

text \<open>The struct literal \<open>newPod\<close> of \<open>restartPod\<close>, for the suffix drawn.\<close>

definition newPod :: "Pod \<Rightarrow> string \<Rightarrow> Pod" where
  "newPod pod sfx =
     \<lparr>podName = newPodName (podName pod) sfx,
      podNamespace = podNamespace pod,
      podOwnerReferences = [],
      podLabels = podLabels pod,
      podSpec = podSpec pod,
      podPhase = []\<rparr>"

definition restartPod :: "kubeClient \<Rightarrow> Pod \<Rightarrow> world \<Rightarrow> error option \<times> world" where
  "restartPod c pod w =
     (let sfx = randString c (seed w) (ConfigNameSuffixLength - 1);
          w0 = w\<lparr>seed := Suc (seed w)\<rparr>;
          w1 = invoke c (Call Create Pods (podNamespace (newPod pod sfx))
                           (podName (newPod pod sfx))) w0
      in case apiCreatePod c w0 (podNamespace (newPod pod sfx)) (newPod pod sfx) of
           Inl err \<Rightarrow> (Some err, w1)
         | Inr inst \<Rightarrow> waitForRestart c pod inst (clock w1) w1)"

section \<open>restartResource\<close>

definition restartResource ::
  "kubeClient \<Rightarrow> string \<Rightarrow> string \<Rightarrow> Pod \<Rightarrow> world \<Rightarrow> error option \<times> world" where
  "restartResource c resourceType name pod w =
     (if resourceType = ''ReplicaSet'' then restartReplicaSet c name (podNamespace pod) w
      else if resourceType = ''Deployment'' then restartDeployment c name (podNamespace pod) w
      else if resourceType = ''StatefulSet'' then restartStatefulSet c name (podNamespace pod) w
      else if resourceType = ''DaemonSet'' then restartDaemonSet c name (podNamespace pod) w
      else if resourceType = ''Pod'' then restartPod c pod w
      else (None, w))"

section \<open>restartResourceFromPod\<close>

text \<open>The ledger key \<open>Sprintf("%s|%s|%s", ownerRef.Name, ownerRef.Kind, pod.Namespace)\<close>.\<close>

definition matchKey :: "OwnerReference \<Rightarrow> Pod \<Rightarrow> string" where
  "matchKey ownerRef pod = refName ownerRef @ ''|'' @ refKind ownerRef @ ''|'' @ podNamespace pod"

text \<open>
  The loop over the pod's owner references. \<open>restarted\<close> is the slice behind the pointer:
  it is returned as the loop leaves it, also when the loop returns an error.
\<close>

fun ownerRefsLoop ::
  "kubeClient \<Rightarrow> Pod \<Rightarrow> OwnerReference list \<Rightarrow> string list \<Rightarrow> world
     \<Rightarrow> error option \<times> string list \<times> world" where
  "ownerRefsLoop c pod [] restarted w = (None, restarted, w)"
| "ownerRefsLoop c pod (ownerRef # rest) restarted w =
     (let resourceType = getResourceType (refKind ownerRef) in
      if resourceType = ''unknown''
      then ownerRefsLoop c pod rest restarted
             (printf (''skipping restart unknown resource type for pod: '' @ podName pod
                      @ newline) w)
      else if resourceType \<noteq> ''Pod''
      then (if matchKey ownerRef pod \<in> set restarted
            then ownerRefsLoop c pod rest restarted
                   (printf (''skipping already restarted resource: '' @ matchKey ownerRef pod
                            @ newline) w)
            else (case restartResource c resourceType (refName ownerRef) pod w of
                    (Some err, w1) \<Rightarrow> (Some err, restarted, w1)
                  | (None, w1) \<Rightarrow>
                      ownerRefsLoop c pod rest (restarted @ [matchKey ownerRef pod]) w1))
      else ownerRefsLoop c pod rest restarted w)"

definition restartResourceFromPod ::
  "kubeClient \<Rightarrow> string list \<Rightarrow> Pod \<Rightarrow> world \<Rightarrow> error option \<times> string list \<times> world" where
  "restartResourceFromPod c restarted pod w =
     (let ownerRefs = podOwnerReferences pod in
      if ownerRefs = []
      then (case restartResource c ''Pod'' '''' pod w of
              (Some err, w1) \<Rightarrow> (Some err, restarted, w1)
            | (None, w1) \<Rightarrow> ownerRefsLoop c pod ownerRefs (restarted @ [podName pod]) w1)
      else ownerRefsLoop c pod ownerRefs restarted w)"

section \<open>The loop of main\<close>

text \<open>
  \<open>allErrs\<close> holds the \<open>podError\<close> values (pod name, error); the loop goes on after a
  failure.
\<close>

type_synonym podError = "string \<times> error"

fun mainLoop ::
  "kubeClient \<Rightarrow> Pod list \<Rightarrow> podError list \<Rightarrow> string list \<Rightarrow> world
     \<Rightarrow> podError list \<times> string list \<times> world" where
  "mainLoop c [] allErrs restarted w = (allErrs, restarted, w)"
| "mainLoop c (pod # pods) allErrs restarted w =
     (if \<not> stringsContains (podName pod) DatabaseMatch
      then mainLoop c pods allErrs restarted w
      else (case restartResourceFromPod c restarted pod
                   (printf (''executing graceful restart on pod: '' @ podName pod @ newline) w) of
              (Some err, restarted1, w1) \<Rightarrow>
                mainLoop c pods (allErrs @ [(podName pod, err)]) restarted1 w1
            | (None, restarted1, w1) \<Rightarrow> mainLoop c pods allErrs restarted1 w1))"

section \<open>The selection and the ledger, as the specification words them\<close>

text \<open>
  The resolver run on each pod of a list, with no test of the name: what the loop of main
  does to the candidates the selector has kept.
\<close>

fun restartEach ::
  "kubeClient \<Rightarrow> Pod list \<Rightarrow> podError list \<Rightarrow> string list \<Rightarrow> world
     \<Rightarrow> podError list \<times> string list \<times> world" where
  "restartEach c [] allErrs restarted w = (allErrs, restarted, w)"
| "restartEach c (pod # pods) allErrs restarted w =
     (case restartResourceFromPod c restarted pod
             (printf (''executing graceful restart on pod: '' @ podName pod @ newline) w) of
        (Some err, restarted1, w1) \<Rightarrow>
          restartEach c pods (allErrs @ [(podName pod, err)]) restarted1 w1
      | (None, restarted1, w1) \<Rightarrow> restartEach c pods allErrs restarted1 w1)"



section \<open>A small cluster\<close>

text \<open>
  Namespace prod holds the Deployment database, which owns the ReplicaSets database-5d4f
  and database-7c9b, and the ReplicaSet database-bare, which has no owner. Every update
  answers \<open>updateResult\<close>, every pod is reported in phase \<open>phase\<close>, every request takes
  100 seconds.
\<close>

definition demoCluster :: "error option \<Rightarrow> string \<Rightarrow> kubeClient" where
  "demoCluster updateResult phase =
     \<lparr>apiGetDeployment = (\<lambda>w ns name.
          if ns = ''prod'' \<and> name = ''database''
          then Inr \<lparr>objName = ''database'', objNamespace = ''prod'', templateAnnotations = None\<rparr>
          else Inl ''not found''),
      apiUpdateDeployment = (\<lambda>w ns obj. updateResult),
      apiGetDaemonSet = (\<lambda>w ns name. Inl ''not found''),
      apiUpdateDaemonSet = (\<lambda>w ns obj. updateResult),
      apiGetStatefulSet = (\<lambda>w ns name. Inl ''not found''),
      apiUpdateStatefulSet = (\<lambda>w ns obj. updateResult),
      apiGetReplicaSet = (\<lambda>w ns name.
          if ns = ''prod'' \<and> (name = ''database-5d4f'' \<or> name = ''database-7c9b'')
          then Inr \<lparr>rsName = name, rsNamespace = ns,
                    rsOwnerReferences = [\<lparr>refKind = ''Deployment'', refName = ''database''\<rparr>]\<rparr>
          else if ns = ''prod'' \<and> name = ''database-bare''
          then Inr \<lparr>rsName = name, rsNamespace = ns, rsOwnerReferences = []\<rparr>
          else Inl ''not found''),
      apiCreatePod = (\<lambda>w ns pod. Inr pod),
      apiGetPod = (\<lambda>w ns name.
          Inr \<lparr>podName = name, podNamespace = ns, podOwnerReferences = [], podLabels = [],
               podSpec = [], podPhase = phase\<rparr>),
      apiDeletePod = (\<lambda>w ns name. None),
      latency = (\<lambda>w k. 100 * Second),
      randString = (\<lambda>i n. replicate n (CHR ''x'')),
      formatRFC3339 = (\<lambda>t. ''2024-01-01T00:00:00Z'')\<rparr>"

definition world0 :: world where
  "world0 = \<lparr>calls = [], stdout = [], clock = 0, seed = 0\<rparr>"

text \<open>A pod, by namespace, name and owner references.\<close>

definition demoPod :: "string \<Rightarrow> string \<Rightarrow> OwnerReference list \<Rightarrow> Pod" where
  "demoPod ns name ownerRefs =
     \<lparr>podName = name, podNamespace = ns, podOwnerReferences = ownerRefs, podLabels = [],
      podSpec = ''postgres'', podPhase = ''Running''\<rparr>"

section \<open>Effects of the primitive steps\<close>

lemma invoke_simps [simp]:
  "calls (invoke c k w) = calls w @ [k]"
  "stdout (invoke c k w) = stdout w"
  "seed (invoke c k w) = seed w"
  "clock (invoke c k w) = clock w + latency c w k"
  by (simp_all add: invoke_def)

lemma printf_simps [simp]:
  "calls (printf s w) = calls w"
  "stdout (printf s w) = stdout w @ [s]"
  "seed (printf s w) = seed w"
  "clock (printf s w) = clock w"
  by (simp_all add: printf_def)

lemma sleep_simps [simp]:
  "calls (sleep d w) = calls w"
  "stdout (sleep d w) = stdout w"
  "seed (sleep d w) = seed w"
  "clock (sleep d w) = clock w + d"
  by (simp_all add: sleep_def)

lemma mutations_invoke_Get [simp]: "mutations (invoke c (Call Get r ns n) w) = mutations w"
  by (simp add: mutations_def isMutating_def)

lemma mutations_printf [simp]: "mutations (printf s w) = mutations w"
  by (simp add: mutations_def)

section \<open>strings.Contains\<close>

lemma stringsContains_sublist: "stringsContains s substr = sublist substr s"
  by (induction s) (auto simp: sublist_Cons_right)

section \<open>The classifier\<close>

lemma getResourceType_range:
  "getResourceType kind \<in> {''ReplicaSet'', ''Deployment'', ''StatefulSet'', ''DaemonSet'', ''Pod'', ''unsupported''}"
  by (simp add: getResourceType_def)

lemma getResourceType_not_unknown [simp]: "getResourceType kind \<noteq> ''unknown''"
  by (simp add: getResourceType_def)

section \<open>restartReplicaSet\<close>

lemma restartDeployment_calls:
  "\<exists>ks. calls (snd (restartDeployment c name namespace w)) = calls w @ ks
        \<and> (\<forall>k \<in> set ks. callResource k = Deployments)"
  by (auto simp: restartDeployment_def Let_def split: sum.splits)

lemma replicaSetOwners_find:
  "replicaSetOwners c namespace refs w =
     (case List.find (\<lambda>ownerRef. getResourceType (refKind ownerRef) = ''Deployment'') refs of
        None \<Rightarrow> (None, w)
      | Some ownerRef \<Rightarrow> restartDeployment c (refName ownerRef) namespace w)"
  by (induction refs) simp_all

lemma restartReplicaSet_find:
  "restartReplicaSet c name namespace w =
     (case apiGetReplicaSet c w namespace name of
        Inl err \<Rightarrow> (Some err, invoke c (Call Get ReplicaSets namespace name) w)
      | Inr rs \<Rightarrow>
          (case List.find (\<lambda>ownerRef. getResourceType (refKind ownerRef) = ''Deployment'')
                  (rsOwnerReferences rs) of
             None \<Rightarrow> (None, invoke c (Call Get ReplicaSets namespace name) w)
           | Some ownerRef \<Rightarrow>
               restartDeployment c (refName ownerRef) namespace
                 (invoke c (Call Get ReplicaSets namespace name) w)))"
  by (simp add: restartReplicaSet_def Let_def replicaSetOwners_find split: sum.splits)

lemma restartReplicaSet_calls:
  "\<exists>ks. calls (snd (restartReplicaSet c name namespace w))
          = calls w @ Call Get ReplicaSets namespace name # ks
        \<and> (\<forall>k \<in> set ks. callResource k = Deployments)"
proof -
  let ?w1 = "invoke c (Call Get ReplicaSets namespace name) w"
  show ?thesis
  proof (cases "apiGetReplicaSet c w namespace name")
    case (Inl err)
    then show ?thesis by (simp add: restartReplicaSet_find)
  next
    case (Inr rs)
    show ?thesis
    proof (cases "List.find (\<lambda>ownerRef. getResourceType (refKind ownerRef) = ''Deployment'')
                    (rsOwnerReferences rs)")
      case None
      with Inr show ?thesis by (simp add: restartReplicaSet_find)
    next
      case (Some ownerRef)
      obtain ks where "calls (snd (restartDeployment c (refName ownerRef) namespace ?w1))
                         = calls ?w1 @ ks"
        and "\<forall>k \<in> set ks. callResource k = Deployments"
        using restartDeployment_calls by blast
      with Inr Some show ?thesis by (simp add: restartReplicaSet_find)
    qed
  qed
qed

text \<open>
  Claim C8. Restarting a ReplicaSet fetches it and hands the restart to the first of its
  owner references that is classified as Deployment; with no such owner it returns success
  and the fetch is all it has sent, which mutates nothing; and whatever happens, no
  mutating request for a ReplicaSet is sent.
\<close>

theorem restartReplicaSet_escalates:
  "restartReplicaSet c name namespace w =
     (case apiGetReplicaSet c w namespace name of
        Inl err \<Rightarrow> (Some err, invoke c (Call Get ReplicaSets namespace name) w)
      | Inr rs \<Rightarrow>
          (case List.find (\<lambda>ownerRef. getResourceType (refKind ownerRef) = ''Deployment'')
                  (rsOwnerReferences rs) of
             None \<Rightarrow> (None, invoke c (Call Get ReplicaSets namespace name) w)
           | Some ownerRef \<Rightarrow>
               restartDeployment c (refName ownerRef) namespace
                 (invoke c (Call Get ReplicaSets namespace name) w)))
   \<and> mutations (invoke c (Call Get ReplicaSets namespace name) w) = mutations w
   \<and> filter (\<lambda>k. callResource k = ReplicaSets \<and> isMutating k)
              (calls (snd (restartReplicaSet c name namespace w)))
       = filter (\<lambda>k. callResource k = ReplicaSets \<and> isMutating k) (calls w)"
proof (intro conjI)
  show "restartReplicaSet c name namespace w =
     (case apiGetReplicaSet c w namespace name of
        Inl err \<Rightarrow> (Some err, invoke c (Call Get ReplicaSets namespace name) w)
      | Inr rs \<Rightarrow>
          (case List.find (\<lambda>ownerRef. getResourceType (refKind ownerRef) = ''Deployment'')
                  (rsOwnerReferences rs) of
             None \<Rightarrow> (None, invoke c (Call Get ReplicaSets namespace name) w)
           | Some ownerRef \<Rightarrow>
               restartDeployment c (refName ownerRef) namespace
                 (invoke c (Call Get ReplicaSets namespace name) w)))"
    by (rule restartReplicaSet_find)
next
  show "mutations (invoke c (Call Get ReplicaSets namespace name) w) = mutations w"
    by simp
next
  obtain ks where ks: "calls (snd (restartReplicaSet c name namespace w))
          = calls w @ Call Get ReplicaSets namespace name # ks"
    and d: "\<forall>k \<in> set ks. callResource k = Deployments"
    using restartReplicaSet_calls by blast
  have "filter (\<lambda>k. callResource k = ReplicaSets \<and> isMutating k) ks = []"
    using d by (auto simp: filter_empty_conv)
  then show "filter (\<lambda>k. callResource k = ReplicaSets \<and> isMutating k)
              (calls (snd (restartReplicaSet c name namespace w)))
       = filter (\<lambda>k. callResource k = ReplicaSets \<and> isMutating k) (calls w)"
    by (simp add: ks isMutating_def)
qed

section \<open>restartPod\<close>

lemma isPodRunning_world:
  "snd (isPodRunning c name namespace w) = invoke c (Call Get Pods namespace name) w"
  by (simp add: isPodRunning_def Let_def split: sum.splits)

lemma isPodRunning_True:
  "fst (isPodRunning c name namespace w) =
     (\<exists>p. apiGetPod c w namespace name = Inr p \<and> podPhase p = PodRunning)"
  by (auto simp: isPodRunning_def Let_def split: sum.splits)

lemma waitForRestart_calls:
  "\<exists>ks. calls (snd (waitForRestart c pod inst start w)) = calls w @ ks"
proof (induction c pod inst start w rule: waitForRestart.induct)
  case (1 c pod inst start w)
  show ?case
  proof (cases "clock w - start > WaitForRestartTimeout")
    case True
    then show ?thesis by (simp add: waitForRestart.simps [of c pod inst start w])
  next
    case False
    obtain b w1 where r: "isPodRunning c (podName inst) (podNamespace inst) w = (b, w1)"
      by (cases "isPodRunning c (podName inst) (podNamespace inst) w")
    then have w1: "w1 = invoke c (Call Get Pods (podNamespace inst) (podName inst)) w"
      using isPodRunning_world [of c "podName inst" "podNamespace inst" w] by simp
    show ?thesis
    proof (cases b)
      case True
      with False r w1 show ?thesis
        by (simp add: waitForRestart.simps [of c pod inst start w] deletePod_def)
    next
      case b: False
      from "1.IH" [OF False r [symmetric]] b
      obtain ks where "calls (snd (waitForRestart c pod inst start
                          (sleep (ConfigRestartInterval * Second) w1))) = calls w1 @ ks"
        by auto
      with False r w1 b show ?thesis
        by (simp add: waitForRestart.simps [of c pod inst start w])
    qed
  qed
qed

lemma newPod_simps [simp]:
  "podName (newPod pod sfx) = newPodName (podName pod) sfx"
  "podNamespace (newPod pod sfx) = podNamespace pod"
  by (simp_all add: newPod_def)

lemma restartPod_creates:
  "\<exists>ks. calls (snd (restartPod c pod w)) =
          calls w @ Call Create Pods (podNamespace pod)
                      (newPodName (podName pod) (randString c (seed w) (ConfigNameSuffixLength - 1)))
                    # ks"
proof -
  let ?sfx = "randString c (seed w) (ConfigNameSuffixLength - 1)"
  let ?w0 = "w\<lparr>seed := Suc (seed w)\<rparr>"
  let ?w1 = "invoke c (Call Create Pods (podNamespace pod) (newPodName (podName pod) ?sfx)) ?w0"
  show ?thesis
  proof (cases "apiCreatePod c ?w0 (podNamespace pod) (newPod pod ?sfx)")
    case (Inl err)
    then show ?thesis by (simp add: restartPod_def Let_def)
  next
    case (Inr inst)
    obtain ks where "calls (snd (waitForRestart c pod inst (clock ?w1) ?w1)) = calls ?w1 @ ks"
      using waitForRestart_calls by blast
    with Inr show ?thesis by (simp add: restartPod_def Let_def)
  qed
qed

section \<open>The selector\<close>

lemma mainLoop_filter:
  "mainLoop c pods allErrs restarted w =
     restartEach c (filter (\<lambda>pod. stringsContains (podName pod) DatabaseMatch) pods)
       allErrs restarted w"
  by (induction pods arbitrary: allErrs restarted w)
     (simp_all split: prod.splits option.splits)

text \<open>
  Claim C9. The loop of main runs the resolver on exactly the pods whose name contains the
  match string as a literal substring (some prefix, then the bytes of DatabaseMatch, then
  some suffix), in the order of the listed input: it equals the resolver run over the
  filtered list.
\<close>

theorem mainLoop_selects:
  "mainLoop c pods allErrs restarted w =
     restartEach c (filter (\<lambda>pod. \<exists>ps ss. podName pod = ps @ DatabaseMatch @ ss) pods)
       allErrs restarted w"
proof -
  have "(\<lambda>pod. stringsContains (podName pod) DatabaseMatch)
          = (\<lambda>pod. \<exists>ps ss. podName pod = ps @ DatabaseMatch @ ss)"
    by (simp add: stringsContains_sublist sublist_def)
  then have "filter (\<lambda>pod. stringsContains (podName pod) DatabaseMatch) pods
          = filter (\<lambda>pod. \<exists>ps ss. podName pod = ps @ DatabaseMatch @ ss) pods"
    by (rule arg_cong)
  then show ?thesis
    by (simp only: mainLoop_filter)
qed

section \<open>The replacement name\<close>

lemma newPodName_cases:
  "newPodName name sfx =
     (if length name \<le> ValidNameMaxLength then name @ ''-'' @ sfx
      else take (length name - 5) name @ ''-'' @ sfx)"
  by (simp add: newPodName_def newSuffixPodName_def ConfigNameSuffixLength_def)

text \<open>
  Claim C7. With a 4-character token from \<open>rand.String\<close>, the pod that \<open>restartPod\<close>
  creates is named: the original name, a hyphen and the token when the original has at most
  \<open>ValidNameMaxLength\<close> characters (5 characters longer than the original); the original
  without its last 5 characters, a hyphen and the token when it is longer (then exactly as
  long as the original).
\<close>

theorem replacement_name:
  assumes "length (randString c (seed w) (ConfigNameSuffixLength - 1)) = 4"
  shows "\<exists>token ks.
           token = randString c (seed w) (ConfigNameSuffixLength - 1)
         \<and> calls (snd (restartPod c pod w)) =
             calls w @ Call Create Pods (podNamespace pod) (newPodName (podName pod) token) # ks
         \<and> newPodName (podName pod) token =
             (if length (podName pod) \<le> ValidNameMaxLength
              then podName pod @ ''-'' @ token
              else take (length (podName pod) - 5) (podName pod) @ ''-'' @ token)
         \<and> length (newPodName (podName pod) token) =
             (if length (podName pod) \<le> ValidNameMaxLength
              then length (podName pod) + 5
              else length (podName pod))"
proof -
  let ?token = "randString c (seed w) (ConfigNameSuffixLength - 1)"
  obtain ks where "calls (snd (restartPod c pod w)) =
      calls w @ Call Create Pods (podNamespace pod) (newPodName (podName pod) ?token) # ks"
    using restartPod_creates by blast
  moreover have "length (newPodName (podName pod) ?token) =
             (if length (podName pod) \<le> ValidNameMaxLength
              then length (podName pod) + 5
              else length (podName pod))"
    using assms by (simp add: newPodName_cases ValidNameMaxLength_def)
  ultimately show ?thesis
    using newPodName_cases by blast
qed

lemma demo_token:
  "randString (demoCluster u p) i (ConfigNameSuffixLength - 1) = replicate 4 (CHR ''x'')"
  by (simp add: demoCluster_def ConfigNameSuffixLength_def)

text \<open>
  The two cases of C7 on the small cluster: a 13-character name and a 256-character name.
\<close>

theorem replacement_name_witness:
  "(\<exists>ks. calls (snd (restartPod (demoCluster None ''Running'') (demoPod ''prod'' ''database-solo'' []) world0))
          = Call Create Pods ''prod'' (''database-solo-'' @ replicate 4 (CHR ''x'')) # ks)
   \<and> (\<exists>ks. calls (snd (restartPod (demoCluster None ''Running'')
                          (demoPod ''prod'' (replicate 256 (CHR ''d'')) []) world0))
          = Call Create Pods ''prod'' (replicate 251 (CHR ''d'') @ ''-'' @ replicate 4 (CHR ''x'')) # ks)"
proof -
  let ?c = "demoCluster None ''Running''"
  let ?x = "replicate 4 (CHR ''x'')"
  have t: "length (randString ?c (seed world0) (ConfigNameSuffixLength - 1)) = 4"
    unfolding demo_token by simp
  have n1: "newPodName ''database-solo'' ?x = ''database-solo-'' @ ?x"
    by (simp add: newPodName_cases ValidNameMaxLength_def)
  have n2: "newPodName (replicate 256 (CHR ''d'')) ?x = replicate 251 (CHR ''d'') @ ''-'' @ ?x"
    by (simp add: newPodName_cases ValidNameMaxLength_def)
  have c0: "calls world0 = []"
    by (simp add: world0_def)
  have p1: "podName (demoPod ''prod'' ''database-solo'' []) = ''database-solo''"
    and p2: "podName (demoPod ''prod'' (replicate 256 (CHR ''d'')) []) = replicate 256 (CHR ''d'')"
    and p3: "\<And>n. podNamespace (demoPod ''prod'' n []) = ''prod''"
    by (simp_all add: demoPod_def)
  have a: "\<exists>ks. calls (snd (restartPod ?c (demoPod ''prod'' ''database-solo'' []) world0))
          = Call Create Pods ''prod'' (''database-solo-'' @ ?x) # ks"
  proof -
    from replacement_name [OF t, of "demoPod ''prod'' ''database-solo'' []"]
    obtain token ks where "token = randString ?c (seed world0) (ConfigNameSuffixLength - 1)"
      and "calls (snd (restartPod ?c (demoPod ''prod'' ''database-solo'' []) world0)) =
             calls world0 @ Call Create Pods (podNamespace (demoPod ''prod'' ''database-solo'' []))
               (newPodName (podName (demoPod ''prod'' ''database-solo'' [])) token) # ks"
      by blast
    then show ?thesis
      unfolding demo_token p1 p3 c0 by (simp only: n1 append_Nil) blast
  qed
  have b: "\<exists>ks. calls (snd (restartPod ?c (demoPod ''prod'' (replicate 256 (CHR ''d'')) []) world0))
          = Call Create Pods ''prod'' (replicate 251 (CHR ''d'') @ ''-'' @ ?x) # ks"
  proof -
    from replacement_name [OF t, of "demoPod ''prod'' (replicate 256 (CHR ''d'')) []"]
    obtain token ks where "token = randString ?c (seed world0) (ConfigNameSuffixLength - 1)"
      and "calls (snd (restartPod ?c (demoPod ''prod'' (replicate 256 (CHR ''d'')) []) world0)) =
             calls world0 @ Call Create Pods (podNamespace (demoPod ''prod'' (replicate 256 (CHR ''d'')) []))
               (newPodName (podName (demoPod ''prod'' (replicate 256 (CHR ''d'')) [])) token) # ks"
      by blast
    then show ?thesis
      unfolding demo_token p2 p3 c0 by (simp only: n2 append_Nil) blast
  qed
  from a b show ?thesis by blast
qed

text \<open>
  Claim C5, evaluated. A pod name of 251 characters (one the platform accepts) is not longer
  than \<open>ValidNameMaxLength\<close>, so nothing is cut, and the replacement name has 256
  characters.
\<close>

theorem replacement_name_too_long:
  "length (newPodName (''database'' @ replicate 243 (CHR ''a'')) ''wxyz'') = 256
   \<and> ValidNameMaxLength < length (newPodName (''database'' @ replicate 243 (CHR ''a'')) ''wxyz'')"
  by (simp add: newPodName_cases ValidNameMaxLength_def)

section \<open>Evaluations\<close>

text \<open>
  Claim C2, evaluated. The owner kind Job is classified \<open>unsupported\<close>; the loop tests for
  \<open>unknown\<close>, so it goes on, \<open>restartResource\<close> does nothing and returns nil, and the key
  of the Job is appended to the ledger.
\<close>

theorem unsupported_owner_recorded:
  "getResourceType ''Job'' = ''unsupported''
   \<and> restartResourceFromPod (demoCluster None ''Running'') []
       (demoPod ''prod'' ''database-0'' [\<lparr>refKind = ''Job'', refName = ''backup''\<rparr>]) world0
     = (None, [''backup|Job|prod''], world0)"
  by (simp add: restartResourceFromPod_def demoPod_def getResourceType_def restartResource_def
      matchKey_def)

text \<open>
  Claim C1, evaluated. Two pods of the Deployment database, one under each of its two
  ReplicaSets: the ledger keys are those of the ReplicaSets, so they differ, and the
  Deployment is updated twice, in either order of the pods.
\<close>

theorem deployment_restarted_twice:
  "count_list (calls (snd (snd (mainLoop (demoCluster None ''Running'')
      [demoPod ''prod'' ''database-5d4f-abcde'' [\<lparr>refKind = ''ReplicaSet'', refName = ''database-5d4f''\<rparr>],
       demoPod ''prod'' ''database-7c9b-fghij'' [\<lparr>refKind = ''ReplicaSet'', refName = ''database-7c9b''\<rparr>]]
      [] [] world0))))
    (Call Update Deployments ''prod'' ''database'') = 2
   \<and> count_list (calls (snd (snd (mainLoop (demoCluster None ''Running'')
      [demoPod ''prod'' ''database-7c9b-fghij'' [\<lparr>refKind = ''ReplicaSet'', refName = ''database-7c9b''\<rparr>],
       demoPod ''prod'' ''database-5d4f-abcde'' [\<lparr>refKind = ''ReplicaSet'', refName = ''database-5d4f''\<rparr>]]
      [] [] world0))))
    (Call Update Deployments ''prod'' ''database'') = 2"
  by (simp add: restartResourceFromPod_def demoPod_def getResourceType_def restartResource_def
      matchKey_def DatabaseMatch_def restartReplicaSet_def restartDeployment_def
      demoCluster_def world0_def invoke_def printf_def touchTemplate_def Let_def)

section \<open>The ledger protocol of the resolver\<close>

lemma ownerRefsLoop_present:
  assumes "getResourceType (refKind ownerRef) \<noteq> ''Pod''"
    and "matchKey ownerRef pod \<in> set restarted"
  shows "ownerRefsLoop c pod (ownerRef # rest) restarted w =
           ownerRefsLoop c pod rest restarted
             (printf (''skipping already restarted resource: '' @ matchKey ownerRef pod
                      @ newline) w)"
  using assms by (simp add: Let_def)

lemma ownerRefsLoop_failure:
  assumes "getResourceType (refKind ownerRef) \<noteq> ''Pod''"
    and "matchKey ownerRef pod \<notin> set restarted"
    and "restartResource c (getResourceType (refKind ownerRef)) (refName ownerRef) pod w
           = (Some err, w1)"
  shows "ownerRefsLoop c pod (ownerRef # rest) restarted w = (Some err, restarted, w1)"
  using assms by (simp add: Let_def)

lemma ownerRefsLoop_success:
  assumes "getResourceType (refKind ownerRef) \<noteq> ''Pod''"
    and "matchKey ownerRef pod \<notin> set restarted"
    and "restartResource c (getResourceType (refKind ownerRef)) (refName ownerRef) pod w
           = (None, w1)"
  shows "ownerRefsLoop c pod (ownerRef # rest) restarted w =
           ownerRefsLoop c pod rest (restarted @ [matchKey ownerRef pod]) w1"
  using assms by (simp add: Let_def)

lemma restartResourceFromPod_single:
  assumes "getResourceType (refKind ownerRef) \<noteq> ''Pod''"
    and "matchKey ownerRef pod \<notin> set restarted"
    and "podOwnerReferences pod = [ownerRef]"
  shows "restartResourceFromPod c restarted pod w =
           (case restartResource c (getResourceType (refKind ownerRef)) (refName ownerRef) pod w of
              (Some err, w1) \<Rightarrow> (Some err, restarted, w1)
            | (None, w1) \<Rightarrow> (None, restarted @ [matchKey ownerRef pod], w1))"
  using assms by (simp add: restartResourceFromPod_def Let_def split: prod.splits option.splits)

text \<open>
  Claim C3. For an owner reference that the loop of the resolver handles (its type is not
  \<open>Pod\<close>): when its key is in the ledger, the loop goes on without calling
  \<open>restartResource\<close>, only printing; when the key is absent and \<open>restartResource\<close>
  fails, the loop returns the error with the ledger as it was, so the key is still absent;
  when the key is absent and \<open>restartResource\<close> succeeds, the key is appended and the
  loop goes on; and as long as the key is absent, a later pod of the same namespace with
  this owner reference calls \<open>restartResource\<close> for it again.
\<close>

theorem ledger_check_restart_record:
  assumes "getResourceType (refKind ownerRef) \<noteq> ''Pod''"
  shows
    "(matchKey ownerRef pod \<in> set restarted \<longrightarrow>
        ownerRefsLoop c pod (ownerRef # rest) restarted w =
          ownerRefsLoop c pod rest restarted
            (printf (''skipping already restarted resource: '' @ matchKey ownerRef pod
                     @ newline) w))
     \<and> (matchKey ownerRef pod \<notin> set restarted
          \<and> restartResource c (getResourceType (refKind ownerRef)) (refName ownerRef) pod w
              = (Some err, w1) \<longrightarrow>
        ownerRefsLoop c pod (ownerRef # rest) restarted w = (Some err, restarted, w1)
        \<and> matchKey ownerRef pod
            \<notin> set (fst (snd (ownerRefsLoop c pod (ownerRef # rest) restarted w))))
     \<and> (matchKey ownerRef pod \<notin> set restarted
          \<and> restartResource c (getResourceType (refKind ownerRef)) (refName ownerRef) pod w
              = (None, w2) \<longrightarrow>
        ownerRefsLoop c pod (ownerRef # rest) restarted w =
          ownerRefsLoop c pod rest (restarted @ [matchKey ownerRef pod]) w2)
     \<and> (matchKey ownerRef pod \<notin> set restarted
          \<and> podOwnerReferences later = [ownerRef]
          \<and> podNamespace later = podNamespace pod \<longrightarrow>
        restartResourceFromPod c restarted later w3 =
          (case restartResource c (getResourceType (refKind ownerRef)) (refName ownerRef)
                  later w3 of
             (Some err, w4) \<Rightarrow> (Some err, restarted, w4)
           | (None, w4) \<Rightarrow> (None, restarted @ [matchKey ownerRef pod], w4)))"
proof (intro conjI impI)
  assume "matchKey ownerRef pod \<in> set restarted"
  with assms show "ownerRefsLoop c pod (ownerRef # rest) restarted w =
          ownerRefsLoop c pod rest restarted
            (printf (''skipping already restarted resource: '' @ matchKey ownerRef pod
                     @ newline) w)"
    by (rule ownerRefsLoop_present)
next
  assume a: "matchKey ownerRef pod \<notin> set restarted
          \<and> restartResource c (getResourceType (refKind ownerRef)) (refName ownerRef) pod w
              = (Some err, w1)"
  with assms show r: "ownerRefsLoop c pod (ownerRef # rest) restarted w = (Some err, restarted, w1)"
    by (simp add: ownerRefsLoop_failure)
  from a show "matchKey ownerRef pod
            \<notin> set (fst (snd (ownerRefsLoop c pod (ownerRef # rest) restarted w)))"
    unfolding r by simp
next
  assume "matchKey ownerRef pod \<notin> set restarted
          \<and> restartResource c (getResourceType (refKind ownerRef)) (refName ownerRef) pod w
              = (None, w2)"
  with assms show "ownerRefsLoop c pod (ownerRef # rest) restarted w =
          ownerRefsLoop c pod rest (restarted @ [matchKey ownerRef pod]) w2"
    by (simp add: ownerRefsLoop_success)
next
  assume a: "matchKey ownerRef pod \<notin> set restarted
          \<and> podOwnerReferences later = [ownerRef]
          \<and> podNamespace later = podNamespace pod"
  then have k: "matchKey ownerRef later = matchKey ownerRef pod"
    by (simp add: matchKey_def)
  from a k assms
  have "restartResourceFromPod c restarted later w3 =
          (case restartResource c (getResourceType (refKind ownerRef)) (refName ownerRef)
                  later w3 of
             (Some err, w4) \<Rightarrow> (Some err, restarted, w4)
           | (None, w4) \<Rightarrow> (None, restarted @ [matchKey ownerRef later], w4))"
    by (intro restartResourceFromPod_single) simp_all
  then show "restartResourceFromPod c restarted later w3 =
          (case restartResource c (getResourceType (refKind ownerRef)) (refName ownerRef)
                  later w3 of
             (Some err, w4) \<Rightarrow> (Some err, restarted, w4)
           | (None, w4) \<Rightarrow> (None, restarted @ [matchKey ownerRef pod], w4))"
    unfolding k .
qed

text \<open>
  The four cases of C3 on the small cluster, with updates that succeed and updates that
  fail with a conflict.
\<close>

theorem ledger_check_restart_record_witness:
  "ownerRefsLoop (demoCluster None ''Running'')
      (demoPod ''prod'' ''database-5d4f-abcde'' [\<lparr>refKind = ''Deployment'', refName = ''database''\<rparr>])
      [\<lparr>refKind = ''Deployment'', refName = ''database''\<rparr>]
      [''database|Deployment|prod''] world0
     = (None, [''database|Deployment|prod''],
        printf (''skipping already restarted resource: '' @ ''database|Deployment|prod'' @ newline)
          world0)
   \<and> fst (ownerRefsLoop (demoCluster (Some ''conflict'') ''Running'')
      (demoPod ''prod'' ''database-5d4f-abcde'' [\<lparr>refKind = ''Deployment'', refName = ''database''\<rparr>])
      [\<lparr>refKind = ''Deployment'', refName = ''database''\<rparr>] [] world0) = Some ''conflict''
   \<and> fst (snd (ownerRefsLoop (demoCluster (Some ''conflict'') ''Running'')
      (demoPod ''prod'' ''database-5d4f-abcde'' [\<lparr>refKind = ''Deployment'', refName = ''database''\<rparr>])
      [\<lparr>refKind = ''Deployment'', refName = ''database''\<rparr>] [] world0)) = []
   \<and> fst (snd (ownerRefsLoop (demoCluster None ''Running'')
      (demoPod ''prod'' ''database-5d4f-abcde'' [\<lparr>refKind = ''Deployment'', refName = ''database''\<rparr>])
      [\<lparr>refKind = ''Deployment'', refName = ''database''\<rparr>] [] world0))
       = [''database|Deployment|prod'']
   \<and> fst (snd (restartResourceFromPod (demoCluster None ''Running'') []
      (demoPod ''prod'' ''database-7c9b-fghij'' [\<lparr>refKind = ''Deployment'', refName = ''database''\<rparr>])
      world0)) = [''database|Deployment|prod'']"
proof -
  let ?ok = "demoCluster None ''Running''"
  let ?bad = "demoCluster (Some ''conflict'') ''Running''"
  let ?ref = "\<lparr>refKind = ''Deployment'', refName = ''database''\<rparr>"
  let ?pod = "demoPod ''prod'' ''database-5d4f-abcde'' [?ref]"
  let ?later = "demoPod ''prod'' ''database-7c9b-fghij'' [?ref]"
  have rt: "getResourceType (refKind ?ref) \<noteq> ''Pod''"
    by (simp add: getResourceType_def)
  have key: "matchKey ?ref ?pod = ''database|Deployment|prod''"
    by (simp add: matchKey_def demoPod_def)
  have present: "matchKey ?ref ?pod \<in> set [''database|Deployment|prod'']"
    and absent: "matchKey ?ref ?pod \<notin> set []"
    by (simp_all add: key)
  have bad: "restartResource ?bad (getResourceType (refKind ?ref)) (refName ?ref) ?pod world0
      = (Some ''conflict'',
         snd (restartResource ?bad (getResourceType (refKind ?ref)) (refName ?ref) ?pod world0))"
    by (simp add: getResourceType_def restartResource_def restartDeployment_def demoCluster_def
        demoPod_def Let_def)
  have ok: "restartResource ?ok (getResourceType (refKind ?ref)) (refName ?ref) ?pod world0
      = (None,
         snd (restartResource ?ok (getResourceType (refKind ?ref)) (refName ?ref) ?pod world0))"
    by (simp add: getResourceType_def restartResource_def restartDeployment_def demoCluster_def
        demoPod_def Let_def)
  have ok': "restartResource ?ok (getResourceType (refKind ?ref)) (refName ?ref) ?later world0
      = (None,
         snd (restartResource ?ok (getResourceType (refKind ?ref)) (refName ?ref) ?later world0))"
    by (simp add: getResourceType_def restartResource_def restartDeployment_def demoCluster_def
        demoPod_def Let_def)
  have later: "podOwnerReferences ?later = [?ref] \<and> podNamespace ?later = podNamespace ?pod"
    by (simp add: demoPod_def)
  note A = ledger_check_restart_record [OF rt, where pod = ?pod and c = ?ok and rest = "[]"
      and restarted = "[''database|Deployment|prod'']" and w = world0,
      THEN conjunct1, rule_format, OF present]
  note B = ledger_check_restart_record [OF rt, where pod = ?pod and c = ?bad and rest = "[]"
      and restarted = "[]" and w = world0,
      THEN conjunct2, THEN conjunct1, rule_format, OF conjI [OF absent bad], THEN conjunct1]
  note C = ledger_check_restart_record [OF rt, where pod = ?pod and c = ?ok and rest = "[]"
      and restarted = "[]" and w = world0,
      THEN conjunct2, THEN conjunct2, THEN conjunct1, rule_format, OF conjI [OF absent ok]]
  note D = ledger_check_restart_record [OF rt, where pod = ?pod and c = ?ok
      and restarted = "[]" and later = ?later and ?w3.0 = world0,
      THEN conjunct2, THEN conjunct2, THEN conjunct2, rule_format, OF conjI [OF absent later]]
  have a: "ownerRefsLoop ?ok ?pod [?ref] [''database|Deployment|prod''] world0
     = (None, [''database|Deployment|prod''],
        printf (''skipping already restarted resource: '' @ ''database|Deployment|prod'' @ newline)
          world0)"
    unfolding A key by simp
  have b: "fst (ownerRefsLoop ?bad ?pod [?ref] [] world0) = Some ''conflict''"
    and b': "fst (snd (ownerRefsLoop ?bad ?pod [?ref] [] world0)) = []"
    unfolding B by simp_all
  have c: "fst (snd (ownerRefsLoop ?ok ?pod [?ref] [] world0)) = [''database|Deployment|prod'']"
    unfolding C key by simp
  have d: "fst (snd (restartResourceFromPod ?ok [] ?later world0)) = [''database|Deployment|prod'']"
    unfolding D key by (subst ok') simp
  from a b b' c d show ?thesis by blast
qed

section \<open>A ReplicaSet with no Deployment above it\<close>

text \<open>
  Claim C10, amended. A pod whose one owner is a ReplicaSet that the cluster returns and that has no
  owner classified as Deployment: the resolver returns nil, the ledger holds the key
  \<open>rsName|ReplicaSet|namespace\<close> afterwards (appended when it was not there), and no
  mutating request has been sent.
\<close>

theorem replicaSet_without_deployment_recorded:
  assumes refs: "podOwnerReferences pod = [ownerRef]"
    and kind: "refKind ownerRef = ''ReplicaSet''"
    and get: "apiGetReplicaSet c w (podNamespace pod) (refName ownerRef) = Inr rs"
    and nodep: "List.find (\<lambda>r. getResourceType (refKind r) = ''Deployment'')
                  (rsOwnerReferences rs) = None"
  shows "\<exists>w1. restartResourceFromPod c restarted pod w =
                 (None,
                  (if refName ownerRef @ ''|ReplicaSet|'' @ podNamespace pod \<in> set restarted
                   then restarted
                   else restarted @ [refName ownerRef @ ''|ReplicaSet|'' @ podNamespace pod]),
                  w1)
              \<and> mutations w1 = mutations w"
proof -
  have rt: "getResourceType (refKind ownerRef) = ''ReplicaSet''"
    using kind by (simp add: getResourceType_def)
  have key: "matchKey ownerRef pod = refName ownerRef @ ''|ReplicaSet|'' @ podNamespace pod"
    using kind by (simp add: matchKey_def)
  show ?thesis
  proof (cases "matchKey ownerRef pod \<in> set restarted")
    case True
    then have "restartResourceFromPod c restarted pod w =
                 (None, restarted,
                  printf (''skipping already restarted resource: '' @ matchKey ownerRef pod
                          @ newline) w)"
      using refs rt by (simp add: restartResourceFromPod_def Let_def)
    with True key show ?thesis by simp
  next
    case False
    have "restartResource c ''ReplicaSet'' (refName ownerRef) pod w
            = (None, invoke c (Call Get ReplicaSets (podNamespace pod) (refName ownerRef)) w)"
      using get nodep by (simp add: restartResource_def restartReplicaSet_find)
    with False refs rt
    have "restartResourceFromPod c restarted pod w =
            (None, restarted @ [matchKey ownerRef pod],
             invoke c (Call Get ReplicaSets (podNamespace pod) (refName ownerRef)) w)"
      by (simp add: restartResourceFromPod_def Let_def)
    with False key show ?thesis by simp
  qed
qed

text \<open>
  C10 on the small cluster: a pod of the ReplicaSet database-bare.
\<close>

theorem replicaSet_without_deployment_recorded_witness:
  "\<exists>w1. restartResourceFromPod (demoCluster None ''Running'') []
           (demoPod ''prod'' ''database-bare-k2x9p''
              [\<lparr>refKind = ''ReplicaSet'', refName = ''database-bare''\<rparr>]) world0
         = (None, [''database-bare|ReplicaSet|prod''], w1)
       \<and> mutations w1 = mutations world0"
proof -
  let ?c = "demoCluster None ''Running''"
  let ?ref = "\<lparr>refKind = ''ReplicaSet'', refName = ''database-bare''\<rparr>"
  let ?pod = "demoPod ''prod'' ''database-bare-k2x9p'' [?ref]"
  let ?rs = "\<lparr>rsName = ''database-bare'', rsNamespace = ''prod'', rsOwnerReferences = []\<rparr>"
  have refs: "podOwnerReferences ?pod = [?ref]"
    by (simp add: demoPod_def)
  have kind: "refKind ?ref = ''ReplicaSet''"
    by simp
  have get: "apiGetReplicaSet ?c world0 (podNamespace ?pod) (refName ?ref) = Inr ?rs"
    by (simp add: demoCluster_def demoPod_def)
  have nodep: "List.find (\<lambda>r. getResourceType (refKind r) = ''Deployment'')
                 (rsOwnerReferences ?rs) = None"
    by simp
  have ns: "podNamespace ?pod = ''prod''"
    by (simp add: demoPod_def)
  from replicaSet_without_deployment_recorded [OF refs kind get nodep, of "[]"]
  show ?thesis
    unfolding ns by simp
qed

section \<open>The timeout of restartPod\<close>

lemma waitForRestart_never_running:
  assumes never: "\<forall>w' p. clock w' \<le> start + WaitForRestartTimeout \<longrightarrow>
             apiGetPod c w' (podNamespace inst) (podName inst) = Inr p \<longrightarrow>
             podPhase p \<noteq> PodRunning"
  shows "\<exists>n w'. waitForRestart c pod inst start w = (None, w')
           \<and> calls w' = calls w @ replicate n (Call Get Pods (podNamespace inst) (podName inst))
           \<and> stdout w' = stdout w @ [''timed out waiting for Pod to restart: '' @ podName inst
                                       @ '' in namespace: '' @ podNamespace inst @ newline]"
  using never
proof (induction c pod inst start w rule: waitForRestart.induct)
  case (1 c pod inst start w)
  let ?g = "Call Get Pods (podNamespace inst) (podName inst)"
  let ?msg = "''timed out waiting for Pod to restart: '' @ podName inst
                @ '' in namespace: '' @ podNamespace inst @ newline"
  show ?case
  proof (cases "clock w - start > WaitForRestartTimeout")
    case True
    then have "waitForRestart c pod inst start w = (None, printf ?msg w)"
      by (simp add: waitForRestart.simps [of c pod inst start w])
    then have "waitForRestart c pod inst start w = (None, printf ?msg w)
           \<and> calls (printf ?msg w) = calls w @ replicate 0 ?g
           \<and> stdout (printf ?msg w) = stdout w @ [?msg]"
      by simp
    then show ?thesis by blast
  next
    case False
    then have le: "clock w \<le> start + WaitForRestartTimeout"
      by simp
    have notrun: "\<not> fst (isPodRunning c (podName inst) (podNamespace inst) w)"
      using "1.prems" le by (auto simp: isPodRunning_True)
    let ?w1 = "invoke c ?g w"
    have r: "isPodRunning c (podName inst) (podNamespace inst) w = (False, ?w1)"
      using notrun isPodRunning_world [of c "podName inst" "podNamespace inst" w]
      by (simp add: prod_eq_iff)
    let ?w2 = "sleep (ConfigRestartInterval * Second) ?w1"
    have step: "waitForRestart c pod inst start w = waitForRestart c pod inst start ?w2"
      using False r by (simp add: waitForRestart.simps [of c pod inst start w])
    from "1.IH" [OF False r [symmetric] refl "1.prems"]
    obtain n w' where "waitForRestart c pod inst start ?w2 = (None, w')"
      and "calls w' = calls ?w2 @ replicate n ?g"
      and "stdout w' = stdout ?w2 @ [?msg]"
      by blast
    then have "waitForRestart c pod inst start w = (None, w')
           \<and> calls w' = calls w @ replicate (Suc n) ?g
           \<and> stdout w' = stdout w @ [?msg]"
      using step by simp
    then show ?thesis by blast
  qed
qed

text \<open>
  Claim C6. The replacement pod is created, and no poll sent while at most
  \<open>WaitForRestartTimeout\<close> has passed since the creation reports it running. Then
  \<open>restartPod\<close> returns nil; after the create request it has sent nothing but polls of
  the replacement, so no delete: the original and the replacement both stay; and its last
  printed line is the timeout message.
\<close>

theorem restartPod_timeout:
  assumes w1: "w1 = invoke c (Call Create Pods (podNamespace pod)
                       (newPodName (podName pod) (randString c (seed w) (ConfigNameSuffixLength - 1))))
                     (w\<lparr>seed := Suc (seed w)\<rparr>)"
    and create: "apiCreatePod c (w\<lparr>seed := Suc (seed w)\<rparr>) (podNamespace pod)
                   (newPod pod (randString c (seed w) (ConfigNameSuffixLength - 1))) = Inr inst"
    and never: "\<forall>w' p. clock w' \<le> clock w1 + WaitForRestartTimeout \<longrightarrow>
             apiGetPod c w' (podNamespace inst) (podName inst) = Inr p \<longrightarrow>
             podPhase p \<noteq> PodRunning"
  shows "\<exists>n w'. restartPod c pod w = (None, w')
           \<and> calls w' = calls w1 @ replicate n (Call Get Pods (podNamespace inst) (podName inst))
           \<and> filter (\<lambda>k. callVerb k = Delete) (calls w')
               = filter (\<lambda>k. callVerb k = Delete) (calls w)
           \<and> last (stdout w') = ''timed out waiting for Pod to restart: '' @ podName inst
                                 @ '' in namespace: '' @ podNamespace inst @ newline"
proof -
  let ?g = "Call Get Pods (podNamespace inst) (podName inst)"
  have rp: "restartPod c pod w = waitForRestart c pod inst (clock w1) w1"
    using w1 create by (simp add: restartPod_def Let_def)
  from waitForRestart_never_running [OF never, of pod w1]
  obtain n w' where r: "waitForRestart c pod inst (clock w1) w1 = (None, w')"
    and cs: "calls w' = calls w1 @ replicate n ?g"
    and out: "stdout w' = stdout w1 @ [''timed out waiting for Pod to restart: '' @ podName inst
                                       @ '' in namespace: '' @ podNamespace inst @ newline]"
    by blast
  have "filter (\<lambda>k. callVerb k = Delete) (calls w') = filter (\<lambda>k. callVerb k = Delete) (calls w)"
    unfolding cs by (simp add: w1)
  with rp r cs out show ?thesis by simp
qed

text \<open>
  C6 on the small cluster, with every pod reported Pending.
\<close>

theorem restartPod_timeout_witness:
  "fst (restartPod (demoCluster None ''Pending'') (demoPod ''prod'' ''database-solo'' []) world0) = None
   \<and> filter (\<lambda>k. callVerb k = Delete)
        (calls (snd (restartPod (demoCluster None ''Pending'')
                       (demoPod ''prod'' ''database-solo'' []) world0))) = []"
proof -
  let ?c = "demoCluster None ''Pending''"
  let ?pod = "demoPod ''prod'' ''database-solo'' []"
  let ?sfx = "randString ?c (seed world0) (ConfigNameSuffixLength - 1)"
  let ?inst = "newPod ?pod ?sfx"
  have create: "apiCreatePod ?c (world0\<lparr>seed := Suc (seed world0)\<rparr>) (podNamespace ?pod)
                  (newPod ?pod ?sfx) = Inr ?inst"
    by (simp add: demoCluster_def)
  have never: "\<forall>w' p. clock w' \<le> clock (invoke ?c (Call Create Pods (podNamespace ?pod)
                       (newPodName (podName ?pod) ?sfx)) (world0\<lparr>seed := Suc (seed world0)\<rparr>))
                     + WaitForRestartTimeout \<longrightarrow>
             apiGetPod ?c w' (podNamespace ?inst) (podName ?inst) = Inr p \<longrightarrow>
             podPhase p \<noteq> PodRunning"
    by (auto simp: demoCluster_def PodRunning_def)
  have c0: "calls world0 = []"
    by (simp add: world0_def)
  from restartPod_timeout [OF refl create never]
  obtain w' where "restartPod ?c ?pod world0 = (None, w')"
    and "filter (\<lambda>k. callVerb k = Delete) (calls w')
           = filter (\<lambda>k. callVerb k = Delete) (calls world0)"
    by blast
  then show ?thesis by (simp add: c0)
qed

section \<open>Duplicates in the ledger\<close>











section \<open>A pod with a further owner\<close>

text \<open>
  Claim C10 as stated fails: a pod of the ReplicaSet database-bare that has a StatefulSet
  as its first owner, which the cluster does not have. The resolver returns that error at
  once and the key of the ReplicaSet is not in the ledger.
\<close>

theorem further_owner_fails:
  "fst (restartResourceFromPod (demoCluster None ''Running'') []
          (demoPod ''prod'' ''database-bare-k2x9p''
             [\<lparr>refKind = ''StatefulSet'', refName = ''missing''\<rparr>,
              \<lparr>refKind = ''ReplicaSet'', refName = ''database-bare''\<rparr>]) world0)
     = Some ''not found''
   \<and> ''database-bare|ReplicaSet|prod''
       \<notin> set (fst (snd (restartResourceFromPod (demoCluster None ''Running'') []
          (demoPod ''prod'' ''database-bare-k2x9p''
             [\<lparr>refKind = ''StatefulSet'', refName = ''missing''\<rparr>,
              \<lparr>refKind = ''ReplicaSet'', refName = ''database-bare''\<rparr>]) world0)))"
  by (simp add: restartResourceFromPod_def demoPod_def getResourceType_def restartResource_def
      matchKey_def restartStatefulSet_def demoCluster_def Let_def)

end
